theory Spec2Isabelle
  imports Complex_Main
begin

chapter \<open>The GeoJSON corrector\<close>

text \<open>
  A model of \<^verbatim>\<open>geojson_corrector.py\<close>: the property rules and their chain
  (\<^verbatim>\<open>PropertyCorrector\<close>), the adapter of the geometry engine (\<^verbatim>\<open>GeometryCorrector\<close>), the
  correction of a feature and of a document (\<^verbatim>\<open>GeoJSONCorrector\<close>) and the two functions
  on file contents. Every function keeps the name it has in the module; a function that
  can raise returns the exception as a value. The theorems that follow the model state
  what the module's specification says about these functions.
\<close>

section \<open>Values\<close>

text \<open>
  The module works on the values that \<^verbatim>\<open>json.loads\<close> produces: \<^verbatim>\<open>None\<close>, booleans,
  integers, floats, strings, lists and dicts. A dict is an association list in insertion
  order; a Python dict never holds a key twice, so a statement about the order of a dict's
  keys assumes \<open>distinct (map fst kvs)\<close>. Python's integers are unbounded (\<open>int\<close>). A float is
  represented by the exact decimal value of the literal it was read from (\<open>rat\<close>); the
  rounding to a binary64 value (and the overflow to infinity) is outside this model.
  Strings are lists of \<open>char\<close>, one \<open>char\<close> per code point below 256.
\<close>

datatype json =
    JNull
  | JBool bool
  | JInt int
  | JFloat rat
  | JString string
  | JArray "json list"
  | JObject "(string \<times> json) list"

text \<open>\<^verbatim>\<open>d.get(key)\<close>: the value stored under the key, \<^verbatim>\<open>None\<close> when the key is absent.\<close>

definition dict_get :: "(string \<times> json) list \<Rightarrow> string \<Rightarrow> json" where
  "dict_get kvs key = (case map_of kvs key of None \<Rightarrow> JNull | Some v \<Rightarrow> v)"

text \<open>
  \<^verbatim>\<open>d[key] = value\<close>: an existing key keeps its position and takes the new value, a new
  key goes to the end.
\<close>

fun dict_set :: "(string \<times> json) list \<Rightarrow> string \<Rightarrow> json \<Rightarrow> (string \<times> json) list" where
  "dict_set [] key v = [(key, v)]"
| "dict_set ((k, w) # kvs) key v =
     (if k = key then (key, v) # kvs else (k, w) # dict_set kvs key v)"

text \<open>\<^verbatim>\<open>type(v).__name__\<close>, as it appears in the text of an \<^verbatim>\<open>AttributeError\<close>.\<close>

fun py_type_name :: "json \<Rightarrow> string" where
  "py_type_name JNull = ''NoneType''"
| "py_type_name (JBool b) = ''bool''"
| "py_type_name (JInt i) = ''int''"
| "py_type_name (JFloat q) = ''float''"
| "py_type_name (JString s) = ''str''"
| "py_type_name (JArray xs) = ''list''"
| "py_type_name (JObject kvs) = ''dict''"


section \<open>Exceptions\<close>

text \<open>
  The exceptions the module's own code can raise, each with the text \<^verbatim>\<open>str(e)\<close> gives.
  A function that can raise returns \<open>py_exception + 'a\<close>.
\<close>

datatype py_exception =
    AttributeError string
  | TypeError string
  | UnicodeDecodeError string

fun exc_str :: "py_exception \<Rightarrow> string" where
  "exc_str (AttributeError m) = m"
| "exc_str (TypeError m) = m"
| "exc_str (UnicodeDecodeError m) = m"

text \<open>Reading attribute \<open>attr\<close> of a value that does not have it.\<close>

definition no_attribute :: "json \<Rightarrow> string \<Rightarrow> py_exception" where
  "no_attribute v attr =
     AttributeError
       ([CHR 0x27] @ py_type_name v @ [CHR 0x27] @ '' object has no attribute '' @
        [CHR 0x27] @ attr @ [CHR 0x27])"

section \<open>String operations\<close>

text \<open>\<^verbatim>\<open>str.isspace\<close> on the code points below 256.\<close>

definition is_space :: "char \<Rightarrow> bool" where
  "is_space c =
     (let n = (of_char c :: nat)
      in (9 \<le> n \<and> n \<le> 13) \<or> (28 \<le> n \<and> n \<le> 32) \<or> n = 133 \<or> n = 160)"

text \<open>\<^verbatim>\<open>s.strip()\<close>: leading and trailing whitespace removed.\<close>

definition strip :: "string \<Rightarrow> string" where
  "strip s = rev (dropWhile is_space (rev (dropWhile is_space s)))"

text \<open>
  \<^verbatim>\<open>s.lower()\<close> on the code points below 256: the letters A to Z and the capital letters
  of the range 192 to 222 (215, the multiplication sign, is not one) move up by 32, which
  sets bit 5 of the code point.
\<close>

definition lower_char :: "char \<Rightarrow> char" where
  "lower_char c =
     (let n = (of_char c :: nat)
      in if (65 \<le> n \<and> n \<le> 90) \<or> (192 \<le> n \<and> n \<le> 222 \<and> n \<noteq> 215)
         then (case c of Char b0 b1 b2 b3 b4 b5 b6 b7 \<Rightarrow> Char b0 b1 b2 b3 b4 True b6 b7)
         else c)"

definition lower :: "string \<Rightarrow> string" where
  "lower s = map lower_char s"

text \<open>The class \<^verbatim>\<open>\d\<close> on the code points below 256: the ten ASCII digits.\<close>

definition is_digit :: "char \<Rightarrow> bool" where
  "is_digit c = (let n = (of_char c :: nat) in 48 \<le> n \<and> n \<le> 57)"

section \<open>Regular expressions\<close>

text \<open>
  The two patterns of the numeric rule are kept as regular expressions and matched by
  derivatives. Both patterns are anchored (\<^verbatim>\<open>^...$\<close>), so \<^verbatim>\<open>re.match\<close> succeeds exactly
  when the whole string is in the language of the body, or the string ends in a newline
  and the rest is (\<^verbatim>\<open>$\<close> also matches just before a final newline).
\<close>

datatype regex =
    Nothing
  | Eps
  | Chr char
  | Digit
  | OneOf "char list"
  | Seq regex regex
  | Alt regex regex
  | Star regex

abbreviation Opt :: "regex \<Rightarrow> regex" where
  "Opt r \<equiv> Alt r Eps"

abbreviation Plus :: "regex \<Rightarrow> regex" where
  "Plus r \<equiv> Seq r (Star r)"

fun nullable :: "regex \<Rightarrow> bool" where
  "nullable Nothing = False"
| "nullable Eps = True"
| "nullable (Chr c) = False"
| "nullable Digit = False"
| "nullable (OneOf cs) = False"
| "nullable (Seq r s) = (nullable r \<and> nullable s)"
| "nullable (Alt r s) = (nullable r \<or> nullable s)"
| "nullable (Star r) = True"

fun deriv :: "char \<Rightarrow> regex \<Rightarrow> regex" where
  "deriv c Nothing = Nothing"
| "deriv c Eps = Nothing"
| "deriv c (Chr d) = (if c = d then Eps else Nothing)"
| "deriv c Digit = (if is_digit c then Eps else Nothing)"
| "deriv c (OneOf cs) = (if c \<in> set cs then Eps else Nothing)"
| "deriv c (Seq r s) =
     (if nullable r then Alt (Seq (deriv c r) s) (deriv c s) else Seq (deriv c r) s)"
| "deriv c (Alt r s) = Alt (deriv c r) (deriv c s)"
| "deriv c (Star r) = Seq (deriv c r) (Star r)"

fun full_match :: "regex \<Rightarrow> string \<Rightarrow> bool" where
  "full_match r [] = nullable r"
| "full_match r (c # cs) = full_match (deriv c r) cs"

definition re_match_anchored :: "regex \<Rightarrow> string \<Rightarrow> bool" where
  "re_match_anchored r s =
     (full_match r s \<or> (s \<noteq> [] \<and> last s = CHR 0x0A \<and> full_match r (butlast s)))"

text \<open>
  The language of a pattern, to state what the matcher decides: the strings the pattern
  describes, with \<open>star A\<close> the concatenations of any number of strings of \<open>A\<close>.
\<close>

inductive_set star :: "string set \<Rightarrow> string set" for A :: "string set" where
  star_empty: "[] \<in> star A"
| star_more: "u \<in> A \<Longrightarrow> v \<in> star A \<Longrightarrow> u @ v \<in> star A"

fun lang :: "regex \<Rightarrow> string set" where
  "lang Nothing = {}"
| "lang Eps = {[]}"
| "lang (Chr c) = {[c]}"
| "lang Digit = {[c] | c. is_digit c}"
| "lang (OneOf cs) = {[c] | c. c \<in> set cs}"
| "lang (Seq r s) = {u @ v | u v. u \<in> lang r \<and> v \<in> lang s}"
| "lang (Alt r s) = lang r \<union> lang s"
| "lang (Star r) = star (lang r)"

text \<open>\<^verbatim>\<open>-?\d+\<close>\<close>

definition int_pattern :: regex where
  "int_pattern = Seq (Opt (Chr CHR ''-'')) (Plus Digit)"

text \<open>\<^verbatim>\<open>-?\d*\.?\d+(?:[eE][+-]?\d+)?\<close>\<close>

definition float_pattern :: regex where
  "float_pattern =
     Seq (Opt (Chr CHR ''-''))
       (Seq (Star Digit)
         (Seq (Opt (Chr CHR ''.''))
           (Seq (Plus Digit)
             (Opt (Seq (OneOf ''eE'') (Seq (Opt (OneOf ''+-'')) (Plus Digit)))))))"

section \<open>Number conversion\<close>

definition digit_val :: "char \<Rightarrow> nat" where
  "digit_val c = of_char c - 48"

definition digits_val :: "string \<Rightarrow> nat" where
  "digits_val ds = foldl (\<lambda>a c. 10 * a + digit_val c) 0 ds"

text \<open>
  \<^verbatim>\<open>int(s)\<close> for a string of the form \<^verbatim>\<open>-?\d+\<close>, the only strings the numeric rule passes
  to it. (The interpreter's limit on the number of digits of such a string is a setting of
  the runtime and is not modelled.)
\<close>

definition py_int :: "string \<Rightarrow> int" where
  "py_int s =
     (case s of
        c # ds \<Rightarrow> (if c = CHR ''-'' then - int (digits_val ds) else int (digits_val s))
      | [] \<Rightarrow> 0)"

text \<open>
  \<^verbatim>\<open>float(s)\<close> for a string of the form \<^verbatim>\<open>-?\d*\.?\d+(?:[eE][+-]?\d+)?\<close>: the digits of
  the mantissa, scaled by ten to the exponent less the number of digits after the point.
\<close>

definition signed_digits :: "string \<Rightarrow> int" where
  "signed_digits s =
     (case s of
        c # ds \<Rightarrow>
          (if c = CHR ''-'' then - int (digits_val ds)
           else if c = CHR ''+'' then int (digits_val ds)
           else int (digits_val s))
      | [] \<Rightarrow> 0)"

definition scale10 :: "rat \<Rightarrow> int \<Rightarrow> rat" where
  "scale10 m e = (if 0 \<le> e then m * 10 ^ nat e else m / 10 ^ nat (- e))"

definition py_float :: "string \<Rightarrow> rat" where
  "py_float s =
     (let negative = (s \<noteq> [] \<and> hd s = CHR ''-'');
          body = (if negative then tl s else s);
          mantissa = takeWhile (\<lambda>c. c \<noteq> CHR ''e'' \<and> c \<noteq> CHR ''E'') body;
          exponent = signed_digits (drop 1 (dropWhile (\<lambda>c. c \<noteq> CHR ''e'' \<and> c \<noteq> CHR ''E'') body));
          whole = takeWhile (\<lambda>c. c \<noteq> CHR ''.'') mantissa;
          fraction = drop 1 (dropWhile (\<lambda>c. c \<noteq> CHR ''.'') mantissa);
          magnitude = scale10 (of_nat (digits_val (whole @ fraction)))
                        (exponent - int (length fraction))
      in if negative then - magnitude else magnitude)"

section \<open>PropertyCorrector\<close>

text \<open>
  A correction takes the key and the current value and returns the new value and whether
  it changed anything. \<^verbatim>\<open>_corrections\<close> is the list of registered (name, correction)
  pairs.
\<close>

type_synonym correction = "string \<Rightarrow> json \<Rightarrow> json \<times> bool"

definition fix_numeric_string :: correction where
  "fix_numeric_string key val =
     (case val of
        JString s \<Rightarrow>
          (let stripped = strip s
           in if re_match_anchored int_pattern stripped then (JInt (py_int stripped), True)
              else if re_match_anchored float_pattern stripped
                then (JFloat (py_float stripped), True)
              else (val, False))
      | _ \<Rightarrow> (val, False))"

definition fix_null_string :: correction where
  "fix_null_string key val =
     (case val of
        JString s \<Rightarrow>
          (if lower (strip s) \<in> set [''null'', ''none'', ''nil'', '''']
           then (JNull, True) else (val, False))
      | _ \<Rightarrow> (val, False))"

definition fix_boolean_string :: correction where
  "fix_boolean_string key val =
     (case val of
        JString s \<Rightarrow>
          (let low = lower (strip s)
           in if low = ''true'' then (JBool True, True)
              else if low = ''false'' then (JBool False, True)
              else (val, False))
      | _ \<Rightarrow> (val, False))"

definition fix_whitespace :: correction where
  "fix_whitespace key val =
     (case val of
        JString s \<Rightarrow>
          (let stripped = strip s
           in if stripped \<noteq> s then (JString stripped, True) else (val, False))
      | _ \<Rightarrow> (val, False))"

definition register_correction ::
  "(string \<times> correction) list \<Rightarrow> string \<Rightarrow> correction \<Rightarrow> (string \<times> correction) list" where
  "register_correction corrections name func = corrections @ [(name, func)]"

text \<open>The corrections a new \<^verbatim>\<open>PropertyCorrector\<close> holds.\<close>

definition default_corrections :: "(string \<times> correction) list" where
  "default_corrections =
     register_correction
       (register_correction
         (register_correction
           (register_correction [] ''numeric_string'' fix_numeric_string)
           ''null_string'' fix_null_string)
         ''boolean_string'' fix_boolean_string)
       ''whitespace'' fix_whitespace"

text \<open>The inner loop of \<^verbatim>\<open>correct_properties\<close>, over the registered corrections.\<close>

fun apply_corrections ::
  "(string \<times> correction) list \<Rightarrow> string \<Rightarrow> json \<Rightarrow> nat \<Rightarrow> json \<times> nat" where
  "apply_corrections [] key current_value total_fixes = (current_value, total_fixes)"
| "apply_corrections ((correction_name, correction_func) # rest) key current_value total_fixes =
     (let (new_value, was_corrected) = correction_func key current_value
      in if was_corrected then apply_corrections rest key new_value (total_fixes + 1)
         else apply_corrections rest key current_value total_fixes)"

text \<open>The outer loop, over the items of the dict.\<close>

fun properties_loop ::
  "(string \<times> correction) list \<Rightarrow> (string \<times> json) list \<Rightarrow> (string \<times> json) list \<Rightarrow> nat
     \<Rightarrow> (string \<times> json) list \<times> nat" where
  "properties_loop corrections [] corrected total_fixes = (corrected, total_fixes)"
| "properties_loop corrections ((key, val) # items) corrected total_fixes =
     (let (current_value, total_fixes') = apply_corrections corrections key val total_fixes
      in properties_loop corrections items (dict_set corrected key current_value) total_fixes')"

text \<open>
  \<^verbatim>\<open>correct_properties\<close>. Of a value that is neither \<^verbatim>\<open>None\<close> nor a dict,
  \<^verbatim>\<open>properties.items()\<close> raises.
\<close>

definition correct_properties ::
  "(string \<times> correction) list \<Rightarrow> json \<Rightarrow> py_exception + (json \<times> nat)" where
  "correct_properties corrections properties =
     (case properties of
        JNull \<Rightarrow> Inr (JNull, 0)
      | JObject items \<Rightarrow>
          (let (corrected, total_fixes) = properties_loop corrections items [] 0
           in Inr (JObject corrected, total_fixes))
      | _ \<Rightarrow> Inl (no_attribute properties ''items''))"

section \<open>The libraries the module imports\<close>

text \<open>
  The geometry engine (\<^verbatim>\<open>shapely\<close>), the JSON reader and writer, the decoding of bytes and
  the printing of a value are not part of the module: they are parameters. An operation
  that can raise returns \<open>Inl\<close> with the text of the exception. \<open>'g\<close> is the engine's own
  type of geometries.
\<close>

record 'g externals =
  ext_shape :: "json \<Rightarrow> string + 'g"
  ext_is_valid :: "'g \<Rightarrow> string + bool"
  ext_explain_validity :: "'g \<Rightarrow> string + string"
  ext_make_valid :: "'g \<Rightarrow> string + 'g"
  ext_mapping :: "'g \<Rightarrow> string + json"
  ext_repr :: "json \<Rightarrow> string"
  ext_json_loads :: "string \<Rightarrow> string + json"
  ext_json_dumps :: "json \<Rightarrow> string"
  ext_decode_utf8 :: "char list \<Rightarrow> string + string"

text \<open>Sequencing of operations that can raise: the first exception ends the block.\<close>

definition and_then :: "'e + 'a \<Rightarrow> ('a \<Rightarrow> 'e + 'b) \<Rightarrow> 'e + 'b" where
  "and_then r f = (case r of Inl e \<Rightarrow> Inl e | Inr x \<Rightarrow> f x)"

text \<open>The decimal digits of a natural number, as an f-string prints an index.\<close>

fun str_nat :: "nat \<Rightarrow> string" where
  "str_nat n =
     (if n < 10 then [''0123456789'' ! n]
      else str_nat (n div 10) @ [''0123456789'' ! (n mod 10)])"

declare str_nat.simps [simp del]

text \<open>
  \<^verbatim>\<open>str(v)\<close>, as an f-string prints a value: a string as it is, \<^verbatim>\<open>None\<close>, a boolean and an
  integer in Python's notation, any other value as the runtime prints it.
\<close>

definition py_str :: "'g externals \<Rightarrow> json \<Rightarrow> string" where
  "py_str ext v =
     (case v of
        JString s \<Rightarrow> s
      | JNull \<Rightarrow> ''None''
      | JBool b \<Rightarrow> (if b then ''True'' else ''False'')
      | JInt i \<Rightarrow> (if i < 0 then ''-'' @ str_nat (nat (- i)) else str_nat (nat i))
      | _ \<Rightarrow> ext_repr ext v)"

text \<open>\<^verbatim>\<open>len(v)\<close> and the elements a loop over \<open>v\<close> visits.\<close>

definition py_len :: "json \<Rightarrow> py_exception + nat" where
  "py_len v =
     (case v of
        JArray xs \<Rightarrow> Inr (length xs)
      | JObject kvs \<Rightarrow> Inr (length kvs)
      | JString s \<Rightarrow> Inr (length s)
      | _ \<Rightarrow> Inl (TypeError (''object of type '' @ [CHR 0x27] @ py_type_name v @ [CHR 0x27] @
                              '' has no len()'')))"

definition py_iter :: "json \<Rightarrow> py_exception + json list" where
  "py_iter v =
     (case v of
        JArray xs \<Rightarrow> Inr xs
      | JObject kvs \<Rightarrow> Inr (map (\<lambda>kv. JString (fst kv)) kvs)
      | JString s \<Rightarrow> Inr (map (\<lambda>c. JString [c]) s)
      | _ \<Rightarrow> Inl (TypeError ([CHR 0x27] @ py_type_name v @ [CHR 0x27] @
                              '' object is not iterable'')))"

section \<open>GeometryCorrector\<close>



text \<open>The body of the \<^verbatim>\<open>try\<close> block of \<^verbatim>\<open>correct_geometry\<close>, and the function.\<close>

definition correct_geometry_attempt ::
  "'g externals \<Rightarrow> json \<Rightarrow> string + (json \<times> bool \<times> string)" where
  "correct_geometry_attempt ext geometry =
     and_then (ext_shape ext geometry) (\<lambda>geom.
     and_then (ext_is_valid ext geom) (\<lambda>valid.
       if valid then Inr (geometry, False, ''Geometry was already valid'')
       else
         and_then (ext_explain_validity ext geom) (\<lambda>original_issue.
         and_then (ext_make_valid ext geom) (\<lambda>corrected_geom.
         and_then (ext_is_valid ext corrected_geom) (\<lambda>corrected_valid.
           if corrected_valid
           then and_then (ext_mapping ext corrected_geom) (\<lambda>m.
                  Inr (m, True, ''Fixed: '' @ original_issue))
           else Inr (geometry, False, ''Could not fix: '' @ original_issue))))))"

definition correct_geometry ::
  "'g externals \<Rightarrow> json \<Rightarrow> py_exception + (json \<times> bool \<times> string)" where
  "correct_geometry ext geometry =
     (case correct_geometry_attempt ext geometry of
        Inr r \<Rightarrow> Inr r
      | Inl e \<Rightarrow> Inr (geometry, False, ''Error processing geometry: '' @ e))"

section \<open>GeoJSONCorrector\<close>

record feature_detail =
  feature_index :: nat
  geometry_corrected :: bool
  geometry_message :: string
  properties_fixes :: nat

record correction_result =
  original_feature_count :: nat
  corrected_feature_count :: nat
  geometry_issues_fixed :: nat
  property_issues_fixed :: nat
  errors :: "string list"
  warnings :: "string list"
  details :: "feature_detail list"

text \<open>\<^verbatim>\<open>CorrectionResult()\<close>\<close>

definition new_result :: correction_result where
  "new_result =
     \<lparr>original_feature_count = 0, corrected_feature_count = 0, geometry_issues_fixed = 0,
      property_issues_fixed = 0, errors = [], warnings = [], details = []\<rparr>"

text \<open>
  The loop that preserves the other top-level keys:
  \<^verbatim>\<open>for key in source: if key not in skip: target[key] = source[key]\<close>.
\<close>

fun preserve_keys ::
  "string list \<Rightarrow> (string \<times> json) list \<Rightarrow> string list \<Rightarrow> (string \<times> json) list
     \<Rightarrow> (string \<times> json) list" where
  "preserve_keys skip source [] target = target"
| "preserve_keys skip source (key # keys) target =
     preserve_keys skip source keys
       (if key \<in> set skip then target else dict_set target key (dict_get source key))"

definition correct_feature ::
  "(string \<times> correction) list \<Rightarrow> 'g externals \<Rightarrow> json \<Rightarrow> nat
     \<Rightarrow> py_exception + (json \<times> feature_detail)" where
  "correct_feature corrections ext feature idx =
     (case feature of
        JObject kvs \<Rightarrow>
          (let det0 = \<lparr>feature_index = idx, geometry_corrected = False,
                       geometry_message = [], properties_fixes = 0\<rparr>;
               cf0 = [(''type'', JString ''Feature''),
                      (''properties'', dict_get kvs ''properties''),
                      (''geometry'', dict_get kvs ''geometry'')];
               cf1 = preserve_keys [''type'', ''properties'', ''geometry''] kvs (map fst kvs) cf0;
               geometry = dict_get kvs ''geometry''
           in and_then
                (if geometry \<noteq> JNull
                 then and_then (correct_geometry ext geometry)
                        (\<lambda>(corrected_geom, was_corrected, message).
                           Inr (dict_set cf1 ''geometry'' corrected_geom,
                                det0\<lparr>geometry_corrected := was_corrected,
                                     geometry_message := message\<rparr>))
                 else Inr (cf1, det0))
                (\<lambda>(cf2, det1).
                   and_then (correct_properties corrections (dict_get kvs ''properties''))
                     (\<lambda>(corrected_props, prop_fixes).
                        Inr (JObject (dict_set cf2 ''properties'' corrected_props),
                             det1\<lparr>properties_fixes := prop_fixes\<rparr>))))
      | _ \<Rightarrow> Inl (no_attribute feature ''get''))"

text \<open>The loop of \<^verbatim>\<open>_correct_feature_collection\<close> over \<^verbatim>\<open>enumerate(features)\<close>.\<close>

fun features_loop ::
  "(string \<times> correction) list \<Rightarrow> 'g externals \<Rightarrow> (nat \<times> json) list \<Rightarrow> json list
     \<Rightarrow> correction_result \<Rightarrow> json list \<times> correction_result" where
  "features_loop corrections ext [] corrected_features result = (corrected_features, result)"
| "features_loop corrections ext ((idx, feature) # rest) corrected_features result =
     (case correct_feature corrections ext feature idx of
        Inr (corrected_feature, det) \<Rightarrow>
          features_loop corrections ext rest (corrected_features @ [corrected_feature])
            (result\<lparr>details := details result @ [det],
                    geometry_issues_fixed :=
                      (if geometry_corrected det then geometry_issues_fixed result + 1
                       else geometry_issues_fixed result),
                    property_issues_fixed := property_issues_fixed result + properties_fixes det\<rparr>)
      | Inl e \<Rightarrow>
          features_loop corrections ext rest (corrected_features @ [feature])
            (result\<lparr>errors := errors result @
                      [''Error processing feature '' @ str_nat idx @ '': '' @ exc_str e]\<rparr>))"

definition correct_feature_collection ::
  "(string \<times> correction) list \<Rightarrow> 'g externals \<Rightarrow> (string \<times> json) list \<Rightarrow> correction_result
     \<Rightarrow> py_exception + (json \<times> correction_result)" where
  "correct_feature_collection corrections ext geojson_data result =
     (let features = (case map_of geojson_data ''features'' of None \<Rightarrow> JArray [] | Some v \<Rightarrow> v)
      in and_then (py_len features) (\<lambda>n.
         and_then (py_iter features) (\<lambda>fs.
           let (corrected_features, result') =
                 features_loop corrections ext (enumerate 0 fs) []
                   (result\<lparr>original_feature_count := n\<rparr>);
               result'' = result'\<lparr>corrected_feature_count := length corrected_features\<rparr>;
               corrected_geojson =
                 preserve_keys [''type'', ''features''] geojson_data (map fst geojson_data)
                   [(''type'', JString ''FeatureCollection''),
                    (''features'', JArray corrected_features)]
           in Inr (JObject corrected_geojson, result''))))"

definition correct_single_feature ::
  "(string \<times> correction) list \<Rightarrow> 'g externals \<Rightarrow> json \<Rightarrow> correction_result
     \<Rightarrow> py_exception + (json \<times> correction_result)" where
  "correct_single_feature corrections ext geojson_data result =
     (let result1 = result\<lparr>original_feature_count := 1\<rparr>
      in case correct_feature corrections ext geojson_data 0 of
           Inr (corrected_feature, det) \<Rightarrow>
             Inr (corrected_feature,
                  result1\<lparr>details := details result1 @ [det],
                          geometry_issues_fixed :=
                            (if geometry_corrected det then geometry_issues_fixed result1 + 1
                             else geometry_issues_fixed result1),
                          property_issues_fixed :=
                            property_issues_fixed result1 + properties_fixes det,
                          corrected_feature_count := 1\<rparr>)
         | Inl e \<Rightarrow>
             Inr (geojson_data,
                  result1\<lparr>errors := errors result1 @
                            [''Error processing feature: '' @ exc_str e]\<rparr>))"

definition correct_bare_geometry ::
  "'g externals \<Rightarrow> json \<Rightarrow> correction_result \<Rightarrow> py_exception + (json \<times> correction_result)" where
  "correct_bare_geometry ext geojson_data result =
     (let result1 = result\<lparr>original_feature_count := 1\<rparr>
      in case correct_geometry ext geojson_data of
           Inr (corrected_geom, was_corrected, message) \<Rightarrow>
             Inr (corrected_geom,
                  result1\<lparr>geometry_issues_fixed :=
                            (if was_corrected then 1 else geometry_issues_fixed result1),
                          details := details result1 @
                            [\<lparr>feature_index = 0, geometry_corrected = was_corrected,
                              geometry_message = message, properties_fixes = 0\<rparr>],
                          corrected_feature_count := 1\<rparr>)
         | Inl e \<Rightarrow>
             Inr (geojson_data,
                  result1\<lparr>errors := errors result1 @
                            [''Error processing geometry: '' @ exc_str e]\<rparr>))"

definition geometry_types :: "string list" where
  "geometry_types =
     [''Point'', ''MultiPoint'', ''LineString'', ''MultiLineString'',
      ''Polygon'', ''MultiPolygon'', ''GeometryCollection'']"

text \<open>
  \<^verbatim>\<open>correct_geojson\<close>. \<open>corrections\<close> is the state of the corrector's
  \<^verbatim>\<open>PropertyCorrector\<close>. Of a value that is not a dict, \<^verbatim>\<open>geojson_data.get\<close> raises.
\<close>

definition correct_geojson ::
  "(string \<times> correction) list \<Rightarrow> 'g externals \<Rightarrow> json
     \<Rightarrow> py_exception + (json \<times> correction_result)" where
  "correct_geojson corrections ext geojson_data =
     (case geojson_data of
        JObject kvs \<Rightarrow>
          (let result = new_result;
               geojson_type = dict_get kvs ''type''
           in if geojson_type = JString ''FeatureCollection''
                then correct_feature_collection corrections ext kvs result
              else if geojson_type = JString ''Feature''
                then correct_single_feature corrections ext geojson_data result
              else if geojson_type \<in> set (map JString geometry_types)
                then correct_bare_geometry ext geojson_data result
              else Inr (geojson_data,
                        result\<lparr>errors := errors result @
                                  [''Unknown GeoJSON type: '' @ py_str ext geojson_type]\<rparr>))
      | _ \<Rightarrow> Inl (no_attribute geojson_data ''get''))"

section \<open>The functions on file contents\<close>

text \<open>A file's content is a string or bytes; bytes are decoded first, which can raise.\<close>

datatype file_content = Str string | Bytes "char list"

definition decode_content :: "'g externals \<Rightarrow> file_content \<Rightarrow> py_exception + string" where
  "decode_content ext content =
     (case content of
        Str s \<Rightarrow> Inr s
      | Bytes bs \<Rightarrow>
          (case ext_decode_utf8 ext bs of
             Inl m \<Rightarrow> Inl (UnicodeDecodeError m)
           | Inr s \<Rightarrow> Inr s))"

definition correct_geojson_file ::
  "'g externals \<Rightarrow> file_content \<Rightarrow> py_exception + (string \<times> correction_result)" where
  "correct_geojson_file ext content =
     and_then (decode_content ext content) (\<lambda>text.
       let result = new_result
       in case ext_json_loads ext text of
            Inl m \<Rightarrow> Inr (text, result\<lparr>errors := errors result @ [''Invalid JSON: '' @ m]\<rparr>)
          | Inr geojson_data \<Rightarrow>
              and_then (correct_geojson default_corrections ext geojson_data)
                (\<lambda>(corrected_data, result').
                   Inr (ext_json_dumps ext corrected_data, result')))"





section \<open>The behaviour the specification describes\<close>

text \<open>
  The property chain in the specification's words: the rules in registration order, each
  applied to the value the rules before it left, and one fix counted for every rule that
  reports a change. (A rule that reports no change leaves the value as it was.)
\<close>

fun run_chain :: "(string \<times> correction) list \<Rightarrow> string \<Rightarrow> json \<Rightarrow> json \<times> nat" where
  "run_chain [] key v = (v, 0)"
| "run_chain ((name, rule) # rules) key v =
     (let (v', changed) = rule key v;
          (w, n) = run_chain rules key (if changed then v' else v)
      in (w, (if changed then 1 else 0) + n))"

text \<open>
  What the batch owes for the feature at one position: the feature the output holds there,
  the errors it adds and the details it adds.
\<close>

definition expected_feature ::
  "(string \<times> correction) list \<Rightarrow> 'g externals \<Rightarrow> nat \<times> json \<Rightarrow> json" where
  "expected_feature corrections ext p =
     (case correct_feature corrections ext (snd p) (fst p) of
        Inr (corrected_feature, det) \<Rightarrow> corrected_feature
      | Inl e \<Rightarrow> snd p)"

definition expected_errors ::
  "(string \<times> correction) list \<Rightarrow> 'g externals \<Rightarrow> nat \<times> json \<Rightarrow> string list" where
  "expected_errors corrections ext p =
     (case correct_feature corrections ext (snd p) (fst p) of
        Inr r \<Rightarrow> []
      | Inl e \<Rightarrow> [''Error processing feature '' @ str_nat (fst p) @ '': '' @ exc_str e])"

definition expected_details ::
  "(string \<times> correction) list \<Rightarrow> 'g externals \<Rightarrow> nat \<times> json \<Rightarrow> feature_detail list" where
  "expected_details corrections ext p =
     (case correct_feature corrections ext (snd p) (fst p) of
        Inr (corrected_feature, det) \<Rightarrow> [det]
      | Inl e \<Rightarrow> [])"




section \<open>A small engine for concrete runs\<close>

text \<open>
  A stand-in for the libraries, to run the module on concrete documents. The engine's
  geometries are the mappings themselves; a mapping without coordinates cannot be built;
  a geometry is valid when its coordinates are not empty; the repair gives a point the
  coordinates \<open>[0, 0]\<close> and leaves every other geometry as it is. The reader refuses
  every text; a run on a parsed document replaces it by a reader that returns the document.
\<close>

definition demo_shape :: "json \<Rightarrow> string + json" where
  "demo_shape g =
     (case g of
        JObject kvs \<Rightarrow>
          (if map_of kvs ''coordinates'' = None then Inl ''geometry has no coordinates''
           else Inr g)
      | _ \<Rightarrow> Inl ''geometry is not a mapping'')"

definition demo_is_valid :: "json \<Rightarrow> string + bool" where
  "demo_is_valid g =
     (case g of
        JObject kvs \<Rightarrow> Inr (dict_get kvs ''coordinates'' \<noteq> JArray [])
      | _ \<Rightarrow> Inl ''geometry is not a mapping'')"

definition demo_make_valid :: "json \<Rightarrow> string + json" where
  "demo_make_valid g =
     (case g of
        JObject kvs \<Rightarrow>
          (if dict_get kvs ''type'' = JString ''Point''
           then Inr (JObject (dict_set kvs ''coordinates'' (JArray [JInt 0, JInt 0])))
           else Inr g)
      | _ \<Rightarrow> Inl ''geometry is not a mapping'')"

definition demo_externals :: "json externals" where
  "demo_externals =
     \<lparr>ext_shape = demo_shape,
      ext_is_valid = demo_is_valid,
      ext_explain_validity = (\<lambda>g. Inr ''Empty coordinates''),
      ext_make_valid = demo_make_valid,
      ext_mapping = Inr,
      ext_repr = (\<lambda>v. ''<value>''),
      ext_json_loads = (\<lambda>s. Inl ''Expecting value: line 1 column 1 (char 0)''),
      ext_json_dumps = (\<lambda>v. ''<json>''),
      ext_decode_utf8 = Inr\<rparr>"


section \<open>Documents for concrete runs\<close>

definition valid_point :: json where
  "valid_point =
     JObject [(''type'', JString ''Point''), (''coordinates'', JArray [JInt 1, JInt 2])]"

definition empty_point :: json where
  "empty_point = JObject [(''type'', JString ''Point''), (''coordinates'', JArray [])]"

definition empty_line :: json where
  "empty_line = JObject [(''type'', JString ''LineString''), (''coordinates'', JArray [])]"

text \<open>
  Four features: one with a geometry to repair and a property to fix, one whose properties
  are a list, one that is a string, and one with no geometry and no properties.
\<close>

definition sample_features :: "json list" where
  "sample_features =
     [JObject [(''type'', JString ''Feature''), (''id'', JInt 7), (''geometry'', empty_point),
               (''properties'', JObject [(''a'', JString ''5'')])],
      JObject [(''type'', JString ''Feature''), (''geometry'', empty_line),
               (''properties'', JArray [])],
      JString ''junk'',
      JObject [(''bbox'', JArray []), (''type'', JString ''Feature''), (''geometry'', JNull)]]"

definition sample_collection :: "(string \<times> json) list" where
  "sample_collection =
     [(''type'', JString ''FeatureCollection''), (''name'', JString ''x''),
      (''features'', JArray sample_features)]"



text \<open>A single feature whose properties are a list, so that correcting it raises.\<close>

definition bad_properties_feature :: "(string \<times> json) list" where
  "bad_properties_feature = [(''type'', JString ''Feature''), (''properties'', JArray [])]"



section \<open>The pattern matcher\<close>

text \<open>Matching by derivatives decides membership in the language of the pattern.\<close>

lemma nullable_lang: "nullable r \<longleftrightarrow> [] \<in> lang r"
  by (induction r) (auto intro: star_empty)

lemma star_cons:
  "c # w \<in> star A \<longleftrightarrow> (\<exists>u v. w = u @ v \<and> c # u \<in> A \<and> v \<in> star A)"
proof
  assume "c # w \<in> star A"
  then show "\<exists>u v. w = u @ v \<and> c # u \<in> A \<and> v \<in> star A"
  proof (induction "c # w" arbitrary: w rule: star.induct)
    case (star_more u v)
    show ?case
    proof (cases u)
      case Nil
      with star_more show ?thesis by simp
    next
      case (Cons d u')
      with star_more.hyps(1,2,4) show ?thesis by auto
    qed
  qed
next
  assume "\<exists>u v. w = u @ v \<and> c # u \<in> A \<and> v \<in> star A"
  then obtain u v where "w = u @ v" "c # u \<in> A" "v \<in> star A" by blast
  then show "c # w \<in> star A" using star_more [of "c # u" A v] by simp
qed

lemma deriv_lang: "w \<in> lang (deriv c r) \<longleftrightarrow> c # w \<in> lang r"
proof (induction r arbitrary: w)
  case (Seq r s)
  show ?case
  proof
    assume "w \<in> lang (deriv c (Seq r s))"
    then consider u v where "w = u @ v" "u \<in> lang (deriv c r)" "v \<in> lang s"
      | "nullable r" "w \<in> lang (deriv c s)"
      by (auto split: if_splits)
    then show "c # w \<in> lang (Seq r s)"
    proof cases
      case 1
      then have "c # u \<in> lang r" using Seq.IH(1) by simp
      with 1 have "\<exists>u' v'. c # w = u' @ v' \<and> u' \<in> lang r \<and> v' \<in> lang s"
        by (intro exI [of _ "c # u"] exI [of _ v]) simp
      then show ?thesis by simp
    next
      case 2
      then have "[] \<in> lang r" "c # w \<in> lang s" using Seq.IH(2) nullable_lang by auto
      then have "\<exists>u' v'. c # w = u' @ v' \<and> u' \<in> lang r \<and> v' \<in> lang s"
        by (intro exI [of _ "[]"] exI [of _ "c # w"]) simp
      then show ?thesis by simp
    qed
  next
    assume "c # w \<in> lang (Seq r s)"
    then obtain u v where uv: "c # w = u @ v" "u \<in> lang r" "v \<in> lang s" by auto
    show "w \<in> lang (deriv c (Seq r s))"
    proof (cases u)
      case Nil
      with uv have "nullable r" "w \<in> lang (deriv c s)"
        using Seq.IH(2) nullable_lang by auto
      then show ?thesis by simp
    next
      case (Cons d u')
      with uv have "u' \<in> lang (deriv c r)" "w = u' @ v" using Seq.IH(1) by auto
      with uv show ?thesis by auto
    qed
  qed
next
  case (Star r)
  have "w \<in> lang (deriv c (Star r)) \<longleftrightarrow>
        (\<exists>u v. w = u @ v \<and> u \<in> lang (deriv c r) \<and> v \<in> star (lang r))"
    by auto
  also have "\<dots> \<longleftrightarrow> (\<exists>u v. w = u @ v \<and> c # u \<in> lang r \<and> v \<in> star (lang r))"
    using Star.IH by simp
  also have "\<dots> \<longleftrightarrow> c # w \<in> lang (Star r)"
    by (simp add: star_cons)
  finally show ?case .
qed auto

lemma full_match_lang: "full_match r s \<longleftrightarrow> s \<in> lang r"
  by (induction s arbitrary: r) (simp_all add: nullable_lang deriv_lang)

section \<open>Dictionaries\<close>

lemma map_of_dict_set: "map_of (dict_set d k v) = (map_of d)(k \<mapsto> v)"
  by (induction d k v rule: dict_set.induct) auto





lemma map_of_preserve_keys:
  "map_of (preserve_keys skip source keys target) k =
     (if k \<in> set keys \<and> k \<notin> set skip then Some (dict_get source k) else map_of target k)"
  by (induction keys arbitrary: target) (auto simp: map_of_dict_set)

lemma map_of_preserve_own_keys:
  "map_of (preserve_keys skip source (map fst source) target) k =
     (if k \<in> set skip then map_of target k
      else if k \<in> fst ` set source then map_of source k else map_of target k)"
proof -
  have "k \<in> fst ` set source \<Longrightarrow> Some (dict_get source k) = map_of source k"
    by (cases "map_of source k") (auto simp: dict_get_def map_of_eq_None_iff)
  then show ?thesis by (auto simp: map_of_preserve_keys)
qed

section \<open>The property chain\<close>



text \<open>
  For a rule that returns the value it was given whenever it reports no change, as the
  four built-in rules do, the next rule's input is simply the rule's output.
\<close>

lemma run_chain_feeds_output:
  assumes "snd (rule key v) \<or> fst (rule key v) = v"
  shows "run_chain ((name, rule) # rules) key v =
           (fst (run_chain rules key (fst (rule key v))),
            (if snd (rule key v) then 1 else 0) + snd (run_chain rules key (fst (rule key v))))"
  using assms by (cases "rule key v") (auto split: prod.splits)

lemma builtin_rules_return_input:
  "snd (fix_numeric_string key v) \<or> fst (fix_numeric_string key v) = v"
  "snd (fix_null_string key v) \<or> fst (fix_null_string key v) = v"
  "snd (fix_boolean_string key v) \<or> fst (fix_boolean_string key v) = v"
  "snd (fix_whitespace key v) \<or> fst (fix_whitespace key v) = v"
  by (cases v;
      simp add: fix_numeric_string_def fix_null_string_def fix_boolean_string_def
        fix_whitespace_def Let_def)+





section \<open>Idempotence of the built-in chain\<close>


lemma dropWhile_head: "dropWhile P xs = [] \<or> \<not> P (hd (dropWhile P xs))"
  by (metis hd_dropWhile)

lemma strip_ends:
  "strip s = [] \<or> (\<not> is_space (hd (strip s)) \<and> \<not> is_space (last (strip s)))"
proof (cases "dropWhile is_space s")
  case Nil
  show ?thesis unfolding strip_def Nil by simp
next
  case (Cons x t)
  then have nx: "\<not> is_space x" using dropWhile_head [of is_space s] by simp
  let ?u = "dropWhile is_space (rev (x # t))"
  have une: "?u \<noteq> []" using nx by (simp add: dropWhile_append)
  have hu: "\<not> is_space (hd ?u)" using une hd_dropWhile by metis
  have lu: "last ?u = x" using nx by (simp add: dropWhile_append)
  have "strip s = rev ?u" by (simp add: strip_def Cons)
  then show ?thesis using une hu lu nx by (simp add: last_rev hd_rev)
qed


text \<open>
  A stripped string does not end in a newline, so on the strings the numeric rule tests,
  the anchored match is membership in the language of the pattern.
\<close>

lemma re_match_stripped: "re_match_anchored r (strip s) \<longleftrightarrow> strip s \<in> lang r"
proof -
  have "is_space (CHR 0x0A)" by (simp add: is_space_def)
  with strip_ends [of s] have "strip s = [] \<or> last (strip s) \<noteq> CHR 0x0A" by auto
  then show ?thesis by (auto simp: re_match_anchored_def full_match_lang)
qed









section \<open>The feature collection\<close>

lemma features_loop_features:
  "fst (features_loop cs ext ps acc res) = acc @ map (expected_feature cs ext) ps"
  by (induction ps arbitrary: acc res)
     (auto simp: expected_feature_def split: sum.splits prod.splits)

lemma features_loop_errors:
  "errors (snd (features_loop cs ext ps acc res)) =
     errors res @ concat (map (expected_errors cs ext) ps)"
  by (induction ps arbitrary: acc res)
     (auto simp: expected_errors_def split: sum.splits prod.splits)

lemma features_loop_details:
  "details (snd (features_loop cs ext ps acc res)) =
     details res @ concat (map (expected_details cs ext) ps)"
  by (induction ps arbitrary: acc res)
     (auto simp: expected_details_def split: sum.splits prod.splits)

lemma features_loop_warnings:
  "warnings (snd (features_loop cs ext ps acc res)) = warnings res"
  by (induction ps arbitrary: acc res) (auto split: sum.splits prod.splits)

lemma features_loop_original:
  "original_feature_count (snd (features_loop cs ext ps acc res)) = original_feature_count res"
  by (induction ps arbitrary: acc res) (auto split: sum.splits prod.splits)

text \<open>The run of \<^verbatim>\<open>correct_geojson\<close> on a collection whose features are a list.\<close>

lemma correct_geojson_collection:
  assumes ty: "dict_get kvs ''type'' = JString ''FeatureCollection''"
    and fs: "(case map_of kvs ''features'' of None \<Rightarrow> JArray [] | Some v \<Rightarrow> v) = JArray fs"
  shows "correct_geojson cs ext (JObject kvs) =
     Inr (JObject (preserve_keys [''type'', ''features''] kvs (map fst kvs)
            [(''type'', JString ''FeatureCollection''),
             (''features'', JArray (map (expected_feature cs ext) (enumerate 0 fs)))]),
          (snd (features_loop cs ext (enumerate 0 fs) []
                 (new_result\<lparr>original_feature_count := length fs\<rparr>)))
            \<lparr>corrected_feature_count := length fs\<rparr>)"
proof -
  let ?r0 = "new_result\<lparr>original_feature_count := length fs\<rparr>"
  obtain cfs res1 where l: "features_loop cs ext (enumerate 0 fs) [] ?r0 = (cfs, res1)"
    by (cases "features_loop cs ext (enumerate 0 fs) [] ?r0")
  have cfs: "cfs = map (expected_feature cs ext) (enumerate 0 fs)"
    using features_loop_features [of cs ext "enumerate 0 fs" "[]" ?r0] l by simp
  have len: "length cfs = length fs" by (simp add: cfs)
  show ?thesis
    using ty fs l len cfs
    by (simp add: correct_geojson_def correct_feature_collection_def and_then_def
        py_len_def py_iter_def)
qed

text \<open>
  C1. For every FeatureCollection whose features are a list of N entries (a missing
  \<^verbatim>\<open>features\<close> key counts as the empty list), \<^verbatim>\<open>correct_geojson\<close> returns, and the result
  counts N original and N corrected features. The output's features list has length N and
  holds at position i the corrected form of feature i or, when correcting feature i raised,
  feature i itself. Every feature that raised adds one error, which names its index, and
  no detail; every other feature adds its detail and no error; both lists are in the order
  of the features. No failure of one feature aborts or reorders the batch.
\<close>

theorem collection_count_and_isolation:
  assumes ty: "dict_get kvs ''type'' = JString ''FeatureCollection''"
    and fs: "(case map_of kvs ''features'' of None \<Rightarrow> JArray [] | Some v \<Rightarrow> v) = JArray fs"
  shows "\<exists>out res.
    correct_geojson cs ext (JObject kvs) = Inr (JObject out, res) \<and>
    original_feature_count res = length fs \<and>
    corrected_feature_count res = length fs \<and>
    dict_get out ''features'' = JArray (map (expected_feature cs ext) (enumerate 0 fs)) \<and>
    length (map (expected_feature cs ext) (enumerate 0 fs)) = length fs \<and>
    errors res = concat (map (expected_errors cs ext) (enumerate 0 fs)) \<and>
    details res = concat (map (expected_details cs ext) (enumerate 0 fs))"
proof -
  let ?r0 = "new_result\<lparr>original_feature_count := length fs\<rparr>"
  let ?res1 = "snd (features_loop cs ext (enumerate 0 fs) [] ?r0)"
  let ?out = "preserve_keys [''type'', ''features''] kvs (map fst kvs)
                [(''type'', JString ''FeatureCollection''),
                 (''features'', JArray (map (expected_feature cs ext) (enumerate 0 fs)))]"
  have run: "correct_geojson cs ext (JObject kvs) =
      Inr (JObject ?out, ?res1\<lparr>corrected_feature_count := length fs\<rparr>)"
    by (rule correct_geojson_collection [OF ty fs])
  have er: "errors ?res1 = concat (map (expected_errors cs ext) (enumerate 0 fs))"
    by (simp add: features_loop_errors new_result_def)
  have de: "details ?res1 = concat (map (expected_details cs ext) (enumerate 0 fs))"
    by (simp add: features_loop_details new_result_def)
  have orig: "original_feature_count ?res1 = length fs"
    by (simp add: features_loop_original)
  have feat: "dict_get ?out ''features'' =
      JArray (map (expected_feature cs ext) (enumerate 0 fs))"
    by (simp add: dict_get_def map_of_preserve_own_keys)
  show ?thesis
    using run feat er de orig by simp
qed

theorem collection_count_and_isolation_witness:
  "dict_get sample_collection ''type'' = JString ''FeatureCollection'' \<and>
   (case map_of sample_collection ''features'' of None \<Rightarrow> JArray [] | Some v \<Rightarrow> v) =
     JArray sample_features \<and>
   (\<exists>out res.
      correct_geojson default_corrections demo_externals (JObject sample_collection) =
        Inr (JObject out, res) \<and>
      original_feature_count res = 4 \<and>
      corrected_feature_count res = 4 \<and>
      dict_get out ''features'' =
        JArray
          [JObject [(''type'', JString ''Feature''),
                    (''properties'', JObject [(''a'', JInt 5)]),
                    (''geometry'', JObject [(''type'', JString ''Point''),
                                            (''coordinates'', JArray [JInt 0, JInt 0])]),
                    (''id'', JInt 7)],
           sample_features ! 1,
           sample_features ! 2,
           JObject [(''type'', JString ''Feature''), (''properties'', JNull),
                    (''geometry'', JNull), (''bbox'', JArray [])]] \<and>
      errors res =
        [''Error processing feature 1: '' @ exc_str (no_attribute (JArray []) ''items''),
         ''Error processing feature 2: '' @ exc_str (no_attribute (JString ''junk'') ''get'')] \<and>
      map feature_index (details res) = [0, 3])"
proof -
  have ty: "dict_get sample_collection ''type'' = JString ''FeatureCollection''"
    by (simp add: sample_collection_def dict_get_def)
  have fs: "(case map_of sample_collection ''features'' of None \<Rightarrow> JArray [] | Some v \<Rightarrow> v) =
     JArray sample_features"
    by (simp add: sample_collection_def)
  have len: "length sample_features = 4" by (simp add: sample_features_def)
  have f: "map (expected_feature default_corrections demo_externals)
             (enumerate 0 sample_features) =
        [JObject [(''type'', JString ''Feature''),
                  (''properties'', JObject [(''a'', JInt 5)]),
                  (''geometry'', JObject [(''type'', JString ''Point''),
                                          (''coordinates'', JArray [JInt 0, JInt 0])]),
                  (''id'', JInt 7)],
         sample_features ! 1,
         sample_features ! 2,
         JObject [(''type'', JString ''Feature''), (''properties'', JNull),
                  (''geometry'', JNull), (''bbox'', JArray [])]]"
    by code_simp
  have e: "concat (map (expected_errors default_corrections demo_externals)
             (enumerate 0 sample_features)) =
        [''Error processing feature 1: '' @ exc_str (no_attribute (JArray []) ''items''),
         ''Error processing feature 2: '' @ exc_str (no_attribute (JString ''junk'') ''get'')]"
    by code_simp
  have d: "map feature_index (concat (map (expected_details default_corrections demo_externals)
             (enumerate 0 sample_features))) = [0, 3]"
    by code_simp
  from collection_count_and_isolation [OF ty fs, of default_corrections demo_externals]
  show ?thesis
    unfolding f e len using ty fs d by auto
qed

section \<open>The geometry adapter\<close>

text \<open>
  C4. \<^verbatim>\<open>correct_geometry\<close> never raises. A geometry that is already valid comes back as
  it is, unchanged, with the message "Geometry was already valid". When the repair does
  not give a valid geometry, the original geometry comes back, unchanged, with a
  "Could not fix" message. An exception raised at any step of the attempt (building the
  engine's geometry, either validity check, the explanation, the repair, the conversion
  back to a mapping) is caught: the original geometry comes back, unchanged, with an error
  message. Whenever the result says unchanged, the geometry returned is the input.
\<close>

theorem correct_geometry_never_raises:
  "(\<exists>r. correct_geometry ext g = Inr r) \<and>
   (ext_shape ext g = Inr geom \<and> ext_is_valid ext geom = Inr True \<longrightarrow>
      correct_geometry ext g = Inr (g, False, ''Geometry was already valid'')) \<and>
   (ext_shape ext g = Inr geom \<and> ext_is_valid ext geom = Inr False \<and>
    ext_explain_validity ext geom = Inr issue \<and> ext_make_valid ext geom = Inr repaired \<and>
    ext_is_valid ext repaired = Inr False \<longrightarrow>
      correct_geometry ext g = Inr (g, False, ''Could not fix: '' @ issue)) \<and>
   (correct_geometry_attempt ext g = Inl e \<longrightarrow>
      correct_geometry ext g = Inr (g, False, ''Error processing geometry: '' @ e)) \<and>
   (ext_shape ext g = Inl e \<longrightarrow> correct_geometry_attempt ext g = Inl e) \<and>
   (ext_shape ext g = Inr geom \<and> ext_is_valid ext geom = Inl e \<longrightarrow>
      correct_geometry_attempt ext g = Inl e) \<and>
   (ext_shape ext g = Inr geom \<and> ext_is_valid ext geom = Inr False \<and>
    ext_explain_validity ext geom = Inl e \<longrightarrow> correct_geometry_attempt ext g = Inl e) \<and>
   (ext_shape ext g = Inr geom \<and> ext_is_valid ext geom = Inr False \<and>
    ext_explain_validity ext geom = Inr issue \<and> ext_make_valid ext geom = Inl e \<longrightarrow>
      correct_geometry_attempt ext g = Inl e) \<and>
   (ext_shape ext g = Inr geom \<and> ext_is_valid ext geom = Inr False \<and>
    ext_explain_validity ext geom = Inr issue \<and> ext_make_valid ext geom = Inr repaired \<and>
    ext_is_valid ext repaired = Inl e \<longrightarrow> correct_geometry_attempt ext g = Inl e) \<and>
   (ext_shape ext g = Inr geom \<and> ext_is_valid ext geom = Inr False \<and>
    ext_explain_validity ext geom = Inr issue \<and> ext_make_valid ext geom = Inr repaired \<and>
    ext_is_valid ext repaired = Inr True \<and> ext_mapping ext repaired = Inl e \<longrightarrow>
      correct_geometry_attempt ext g = Inl e) \<and>
   (\<forall>g' message. correct_geometry ext g = Inr (g', False, message) \<longrightarrow> g' = g)"
proof -
  have total: "\<exists>r. correct_geometry ext g = Inr r"
    by (cases "correct_geometry_attempt ext g") (auto simp: correct_geometry_def)
  have kept: "\<forall>g' message. correct_geometry ext g = Inr (g', False, message) \<longrightarrow> g' = g"
    by (auto simp: correct_geometry_def correct_geometry_attempt_def and_then_def
        split: sum.splits if_splits)
  show ?thesis
    using total kept
    by (simp add: correct_geometry_def correct_geometry_attempt_def and_then_def)
qed

theorem correct_geometry_never_raises_witness:
  "correct_geometry demo_externals valid_point =
     Inr (valid_point, False, ''Geometry was already valid'') \<and>
   correct_geometry demo_externals empty_line =
     Inr (empty_line, False, ''Could not fix: Empty coordinates'') \<and>
   correct_geometry demo_externals (JObject []) =
     Inr (JObject [], False, ''Error processing geometry: geometry has no coordinates'')"
proof -
  have s1: "ext_shape demo_externals valid_point = Inr valid_point"
    by (simp add: demo_externals_def demo_shape_def valid_point_def)
  have v1: "ext_is_valid demo_externals valid_point = Inr True"
    by (simp add: demo_externals_def demo_is_valid_def valid_point_def dict_get_def)
  have a: "correct_geometry demo_externals valid_point =
      Inr (valid_point, False, ''Geometry was already valid'')"
    using correct_geometry_never_raises [of demo_externals valid_point valid_point] s1 v1
    by blast
  have s2: "ext_shape demo_externals empty_line = Inr empty_line"
    by (simp add: demo_externals_def demo_shape_def empty_line_def)
  have v2: "ext_is_valid demo_externals empty_line = Inr False"
    by (simp add: demo_externals_def demo_is_valid_def empty_line_def dict_get_def)
  have x2: "ext_explain_validity demo_externals empty_line = Inr ''Empty coordinates''"
    by (simp add: demo_externals_def)
  have m2: "ext_make_valid demo_externals empty_line = Inr empty_line"
    by (simp add: demo_externals_def demo_make_valid_def empty_line_def dict_get_def)
  have b: "correct_geometry demo_externals empty_line =
      Inr (empty_line, False, ''Could not fix: '' @ ''Empty coordinates'')"
    using correct_geometry_never_raises
      [of demo_externals empty_line empty_line "''Empty coordinates''" empty_line]
      s2 v2 x2 m2
    by blast
  have s3: "ext_shape demo_externals (JObject []) = Inl ''geometry has no coordinates''"
    by (simp add: demo_externals_def demo_shape_def)
  have c: "correct_geometry demo_externals (JObject []) =
      Inr (JObject [], False, ''Error processing geometry: '' @ ''geometry has no coordinates'')"
    using correct_geometry_never_raises
      [of demo_externals "JObject []" _ _ _ "''geometry has no coordinates''"] s3
    by blast
  from a b c show ?thesis by simp
qed

section \<open>Unknown types\<close>

text \<open>
  C8. For every document (a dict) whose type is not \<^verbatim>\<open>FeatureCollection\<close>, \<^verbatim>\<open>Feature\<close> or
  one of the seven geometry types, \<^verbatim>\<open>correct_geojson\<close> returns the document as it is, with
  exactly one error, "Unknown GeoJSON type: " followed by the type as printed (a string
  type prints as itself), and a result that is otherwise the empty one: the count of
  corrected features stays 0.
\<close>

theorem unknown_type_passthrough:
  assumes "dict_get kvs ''type'' \<noteq> JString ''FeatureCollection''"
    and "dict_get kvs ''type'' \<noteq> JString ''Feature''"
    and "dict_get kvs ''type'' \<notin> set (map JString geometry_types)"
  shows "\<exists>res.
    correct_geojson cs ext (JObject kvs) = Inr (JObject kvs, res) \<and>
    errors res = [''Unknown GeoJSON type: '' @ py_str ext (dict_get kvs ''type'')] \<and>
    (\<forall>t. dict_get kvs ''type'' = JString t \<longrightarrow>
         errors res = [''Unknown GeoJSON type: '' @ t]) \<and>
    corrected_feature_count res = 0 \<and>
    res = new_result\<lparr>errors := errors res\<rparr>"
proof -
  have "\<And>t. py_str ext (JString t) = t" by (simp add: py_str_def)
  with assms show ?thesis by (simp add: correct_geojson_def new_result_def Let_def)
qed

theorem unknown_type_passthrough_witness:
  "\<exists>res.
    correct_geojson default_corrections demo_externals (JObject [(''type'', JString ''Widget'')]) =
      Inr (JObject [(''type'', JString ''Widget'')], res) \<and>
    errors res = [''Unknown GeoJSON type: Widget''] \<and>
    corrected_feature_count res = 0"
proof -
  let ?kvs = "[(''type'', JString ''Widget'')]"
  have a: "dict_get ?kvs ''type'' \<noteq> JString ''FeatureCollection''"
    and b: "dict_get ?kvs ''type'' \<noteq> JString ''Feature''"
    and c: "dict_get ?kvs ''type'' \<notin> set (map JString geometry_types)"
    by (simp_all add: dict_get_def geometry_types_def)
  have t: "dict_get ?kvs ''type'' = JString ''Widget''" by (simp add: dict_get_def)
  from unknown_type_passthrough [OF a b c, of default_corrections demo_externals]
  obtain res where
    run: "correct_geojson default_corrections demo_externals (JObject ?kvs) =
            Inr (JObject ?kvs, res)"
    and str: "\<forall>t. dict_get ?kvs ''type'' = JString t \<longrightarrow>
                errors res = [''Unknown GeoJSON type: '' @ t]"
    and cnt: "corrected_feature_count res = 0"
    by (elim exE conjE)
  from str [THEN spec, THEN mp, OF t] have "errors res = [''Unknown GeoJSON type: Widget'']"
    by simp
  with run cnt show ?thesis by (intro exI conjI)
qed

section \<open>Warnings\<close>

lemma features_loop_keeps_warnings:
  "features_loop cs ext ps acc res = (cfs, res') \<Longrightarrow> warnings res' = warnings res"
  using features_loop_warnings [of cs ext ps acc res] by simp

lemma correct_geojson_warnings:
  assumes "correct_geojson cs ext doc = Inr (out, res)"
  shows "warnings res = []"
proof (cases doc)
  case (JObject kvs)
  let ?ty = "dict_get kvs ''type''"
  consider (fc) "?ty = JString ''FeatureCollection''"
    | (f) "?ty \<noteq> JString ''FeatureCollection''" "?ty = JString ''Feature''"
    | (g) "?ty \<noteq> JString ''FeatureCollection''" "?ty \<noteq> JString ''Feature''"
          "?ty \<in> set (map JString geometry_types)"
    | (u) "?ty \<noteq> JString ''FeatureCollection''" "?ty \<noteq> JString ''Feature''"
          "?ty \<notin> set (map JString geometry_types)"
    by blast
  then show ?thesis
  proof cases
    case fc
    with assms JObject show ?thesis
      by (auto simp: correct_geojson_def correct_feature_collection_def and_then_def
          new_result_def Let_def split: sum.splits prod.splits
          dest!: features_loop_keeps_warnings)
  next
    case f
    with assms JObject show ?thesis
      by (auto simp: correct_geojson_def correct_single_feature_def new_result_def Let_def
          split: sum.splits prod.splits)
  next
    case g
    with assms JObject show ?thesis
      by (auto simp: correct_geojson_def correct_bare_geometry_def new_result_def Let_def
          split: sum.splits prod.splits)
  next
    case u
    with assms JObject show ?thesis
      by (auto simp: correct_geojson_def new_result_def Let_def)
  qed
qed (use assms in \<open>simp_all add: correct_geojson_def\<close>)

text \<open>
  C10. Whatever result \<^verbatim>\<open>correct_geojson\<close> or \<^verbatim>\<open>correct_geojson_file\<close> returns, its list
  of warnings is empty.
\<close>

theorem warnings_always_empty:
  "(correct_geojson cs ext doc = Inr (out, res) \<longrightarrow> warnings res = []) \<and>
   (correct_geojson_file ext content = Inr (text, res') \<longrightarrow> warnings res' = [])"
proof -
  have "correct_geojson_file ext content = Inr (text, res') \<Longrightarrow> warnings res' = []"
    using correct_geojson_warnings [of default_corrections ext]
    by (auto simp: correct_geojson_file_def and_then_def new_result_def Let_def
        split: sum.splits prod.splits)
  then show ?thesis using correct_geojson_warnings by blast
qed

section \<open>One feature\<close>

text \<open>The run of \<^verbatim>\<open>correct_feature\<close> on a dict, step by step.\<close>

lemma correct_feature_object:
  "correct_feature cs ext (JObject kvs) idx =
     (let cf1 = preserve_keys [''type'', ''properties'', ''geometry''] kvs (map fst kvs)
                  [(''type'', JString ''Feature''),
                   (''properties'', dict_get kvs ''properties''),
                   (''geometry'', dict_get kvs ''geometry'')];
          geometry = dict_get kvs ''geometry''
      in if geometry = JNull
         then (case correct_properties cs (dict_get kvs ''properties'') of
                 Inl e \<Rightarrow> Inl e
               | Inr (corrected_props, prop_fixes) \<Rightarrow>
                   Inr (JObject (dict_set cf1 ''properties'' corrected_props),
                        \<lparr>feature_index = idx, geometry_corrected = False,
                         geometry_message = [], properties_fixes = prop_fixes\<rparr>))
         else (case correct_geometry ext geometry of
                 Inl e \<Rightarrow> Inl e
               | Inr (corrected_geom, was_corrected, message) \<Rightarrow>
                   (case correct_properties cs (dict_get kvs ''properties'') of
                      Inl e \<Rightarrow> Inl e
                    | Inr (corrected_props, prop_fixes) \<Rightarrow>
                        Inr (JObject (dict_set (dict_set cf1 ''geometry'' corrected_geom)
                                       ''properties'' corrected_props),
                             \<lparr>feature_index = idx, geometry_corrected = was_corrected,
                              geometry_message = message, properties_fixes = prop_fixes\<rparr>))))"
  by (auto simp: correct_feature_def and_then_def Let_def split: sum.splits prod.splits)





section \<open>A single feature\<close>

text \<open>
  C7, as the code has it. For every document of type \<^verbatim>\<open>Feature\<close>, \<^verbatim>\<open>correct_geojson\<close>
  returns with an original feature count of 1. If correcting the feature raises, the
  document comes back as it is, and the result holds one error, "Error processing feature: "
  followed by the cause, with no index, and nothing else. If correcting the feature
  succeeds, the corrected feature comes back, not wrapped in a collection, with its detail
  and a corrected feature count of 1.
\<close>

theorem single_feature_boundary:
  assumes ty: "dict_get kvs ''type'' = JString ''Feature''"
  shows "(\<exists>out res. correct_geojson cs ext (JObject kvs) = Inr (out, res) \<and>
            original_feature_count res = 1) \<and>
   (\<forall>e. correct_feature cs ext (JObject kvs) 0 = Inl e \<longrightarrow>
      correct_geojson cs ext (JObject kvs) =
        Inr (JObject kvs,
             new_result\<lparr>original_feature_count := 1,
                        errors := [''Error processing feature: '' @ exc_str e]\<rparr>)) \<and>
   (\<forall>corrected_feature det.
      correct_feature cs ext (JObject kvs) 0 = Inr (corrected_feature, det) \<longrightarrow>
      correct_geojson cs ext (JObject kvs) =
        Inr (corrected_feature,
             new_result\<lparr>original_feature_count := 1,
                        corrected_feature_count := 1,
                        geometry_issues_fixed := (if geometry_corrected det then 1 else 0),
                        property_issues_fixed := properties_fixes det,
                        details := [det]\<rparr>))"
proof -
  have run: "correct_geojson cs ext (JObject kvs) =
      correct_single_feature cs ext (JObject kvs) new_result"
    using ty by (simp add: correct_geojson_def)
  show ?thesis
    unfolding run
    by (cases "correct_feature cs ext (JObject kvs) 0")
       (auto simp: correct_single_feature_def new_result_def Let_def)
qed

theorem single_feature_boundary_witness:
  "dict_get bad_properties_feature ''type'' = JString ''Feature'' \<and>
   correct_feature default_corrections demo_externals (JObject bad_properties_feature) 0 =
     Inl (no_attribute (JArray []) ''items'') \<and>
   correct_geojson default_corrections demo_externals (JObject bad_properties_feature) =
     Inr (JObject bad_properties_feature,
          new_result\<lparr>original_feature_count := 1,
                     errors := [''Error processing feature: '' @
                                exc_str (no_attribute (JArray []) ''items'')]\<rparr>)"
proof -
  have ty: "dict_get bad_properties_feature ''type'' = JString ''Feature''"
    by (simp add: bad_properties_feature_def dict_get_def)
  have raised:
    "correct_feature default_corrections demo_externals (JObject bad_properties_feature) 0 =
       Inl (no_attribute (JArray []) ''items'')"
    by (simp add: correct_feature_object bad_properties_feature_def dict_get_def
        correct_properties_def)
  from single_feature_boundary [OF ty, of default_corrections demo_externals] raised ty
  show ?thesis by blast
qed

text \<open>
  C7 as stated fails: for a single feature whose properties are a list, correcting the
  feature raises, and the error that is appended reads "Error processing feature: ..."; it
  does not begin with "Error processing feature 0: ".
\<close>

theorem single_feature_error_has_no_index:
  "correct_feature default_corrections demo_externals (JObject bad_properties_feature) 0 =
     Inl (no_attribute (JArray []) ''items'') \<and>
   correct_geojson default_corrections demo_externals (JObject bad_properties_feature) =
     Inr (JObject bad_properties_feature,
          new_result\<lparr>original_feature_count := 1,
                     errors := [''Error processing feature: '' @
                                exc_str (no_attribute (JArray []) ''items'')]\<rparr>) \<and>
   take (length ''Error processing feature 0: '')
     (''Error processing feature: '' @ exc_str (no_attribute (JArray []) ''items'')) \<noteq>
     ''Error processing feature 0: ''"
proof -
  have raised:
    "correct_feature default_corrections demo_externals (JObject bad_properties_feature) 0 =
       Inl (no_attribute (JArray []) ''items'')"
    by (simp add: correct_feature_object bad_properties_feature_def dict_get_def
        correct_properties_def)
  have run: "correct_geojson default_corrections demo_externals (JObject bad_properties_feature) =
     Inr (JObject bad_properties_feature,
          new_result\<lparr>original_feature_count := 1,
                     errors := [''Error processing feature: '' @
                                exc_str (no_attribute (JArray []) ''items'')]\<rparr>)"
    using raised
    by (simp add: correct_geojson_def correct_single_feature_def bad_properties_feature_def
        dict_get_def new_result_def Let_def)
  have differ: "take (length ''Error processing feature 0: '')
     (''Error processing feature: '' @ exc_str (no_attribute (JArray []) ''items'')) \<noteq>
     ''Error processing feature 0: ''"
    by (simp add: no_attribute_def)
  from raised run differ show ?thesis by blast
qed

section \<open>The validation pass\<close>










theorem warnings_always_empty_witness:
  "(\<exists>out res.
      correct_geojson default_corrections demo_externals (JObject sample_collection) =
        Inr (out, res) \<and> warnings res = []) \<and>
   (\<exists>text res.
      correct_geojson_file demo_externals (Str ''not json'') = Inr (text, res) \<and>
      errors res = [''Invalid JSON: Expecting value: line 1 column 1 (char 0)''] \<and>
      warnings res = [])"
proof -
  have ty: "dict_get sample_collection ''type'' = JString ''FeatureCollection''"
    by (simp add: sample_collection_def dict_get_def)
  have fs: "(case map_of sample_collection ''features'' of None \<Rightarrow> JArray [] | Some v \<Rightarrow> v) =
     JArray sample_features"
    by (simp add: sample_collection_def)
  from correct_geojson_collection [OF ty fs, of default_corrections demo_externals]
  obtain out res where
    run: "correct_geojson default_corrections demo_externals (JObject sample_collection) =
           Inr (out, res)"
    by simp
  have w: "warnings res = []"
    using warnings_always_empty [THEN conjunct1, THEN mp, OF run] .
  have first: "\<exists>out res.
      correct_geojson default_corrections demo_externals (JObject sample_collection) =
        Inr (out, res) \<and> warnings res = []"
    using run w by (intro exI conjI)
  let ?res = "new_result\<lparr>errors :=
      [''Invalid JSON: Expecting value: line 1 column 1 (char 0)'']\<rparr>"
  have filerun: "correct_geojson_file demo_externals (Str ''not json'') = Inr (''not json'', ?res)"
    by (simp add: correct_geojson_file_def decode_content_def and_then_def demo_externals_def
        new_result_def)
  have w': "warnings ?res = []"
    using warnings_always_empty [THEN conjunct2, THEN mp, OF filerun] .
  have e': "errors ?res = [''Invalid JSON: Expecting value: line 1 column 1 (char 0)'']"
    by simp
  have second: "\<exists>text res.
      correct_geojson_file demo_externals (Str ''not json'') = Inr (text, res) \<and>
      errors res = [''Invalid JSON: Expecting value: line 1 column 1 (char 0)''] \<and>
      warnings res = []"
    using filerun e' w' by (intro exI conjI)
  from first second show ?thesis by (rule conjI)
qed

end
